theory Spec2Isabelle
  imports Complex_Main "HOL-Library.Word" "HOL-Library.Sublist" "HOL-Library.Log_Nat"
begin

section \<open>JavaScript strings\<close>

text \<open>
  A JavaScript string is a sequence of 16-bit code units. Literals of the source are
  written \<open>js ''...''\<close>; every literal of \<^verbatim>\<open>geminiService.ts\<close> is ASCII.
\<close>

type_synonym code_unit = "16 word"
type_synonym js_string = "code_unit list"

definition js :: "string \<Rightarrow> js_string" where
  "js s = map (\<lambda>c. of_char c) s"

text \<open>
  The operator \<^verbatim>\<open>a || b\<close> on a value that is a string or \<^verbatim>\<open>undefined\<close>:
  \<^verbatim>\<open>undefined\<close> and the empty string are falsy.
\<close>

definition or_else :: "js_string option \<Rightarrow> js_string \<Rightarrow> js_string" where
  "or_else a b = (case a of None \<Rightarrow> b | Some k \<Rightarrow> if k = [] then b else k)"

text \<open>Truthiness of an optional string, as tested by \<^verbatim>\<open>!text\<close> and \<^verbatim>\<open>symptoms ? ... : ...\<close>.\<close>

definition truthy :: "js_string option \<Rightarrow> bool" where
  "truthy a = (case a of None \<Rightarrow> False | Some k \<Rightarrow> k \<noteq> [])"

section \<open>Regular expressions and \<^verbatim>\<open>String.prototype.replace\<close>\<close>

text \<open>
  The fragment of regular expressions the source uses: the anchor \<^verbatim>\<open>^\<close> (no flag
  \<^verbatim>\<open>m\<close>, so it holds at index 0 only), literal text, alternation and sequence.
  \<open>rmatch r i s\<close> runs \<open>r\<close> on the input whose remainder from index \<open>i\<close> is \<open>s\<close>
  and lists the remainders after each way of matching, in the order in which a
  backtracking matcher tries them.
\<close>

datatype regex =
    Bol
  | Lit js_string
  | Alt regex regex
  | Cat regex regex

fun rmatch :: "regex \<Rightarrow> nat \<Rightarrow> js_string \<Rightarrow> js_string list" where
  "rmatch Bol i s = (if i = 0 then [s] else [])"
| "rmatch (Lit l) i s = (if take (length l) s = l then [drop (length l) s] else [])"
| "rmatch (Alt a b) i s = rmatch a i s @ rmatch b i s"
| "rmatch (Cat a b) i s =
     concat (map (\<lambda>r. rmatch b (i + (length s - length r)) r) (rmatch a i s))"

text \<open>
  A regular expression without the flags \<^verbatim>\<open>g\<close> and \<^verbatim>\<open>y\<close> is tried at index 0,
  then 1, and so on up to the length of the input; the first index with a match wins.
  The result is that index and the remainder after the match.
\<close>

fun regexp_exec :: "regex \<Rightarrow> nat \<Rightarrow> js_string \<Rightarrow> (nat \<times> js_string) option" where
  "regexp_exec r i [] =
     (case rmatch r i [] of rest # _ \<Rightarrow> Some (i, rest) | [] \<Rightarrow> None)"
| "regexp_exec r i (c # cs) =
     (case rmatch r i (c # cs) of
        rest # _ \<Rightarrow> Some (i, rest)
      | [] \<Rightarrow> regexp_exec r (Suc i) cs)"

text \<open>
  \<^verbatim>\<open>s.replace(r, replacement)\<close> for a replacement text without \<^verbatim>\<open>$\<close>: the first
  match is replaced, a string without a match is returned as it is.
\<close>

definition replace :: "regex \<Rightarrow> js_string \<Rightarrow> js_string \<Rightarrow> js_string" where
  "replace r replacement s =
     (case regexp_exec r 0 s of
        None \<Rightarrow> s
      | Some (i, rest) \<Rightarrow> take i s @ replacement @ rest)"

text \<open>The literal \<^verbatim>\<open>/^data:image\/(png|jpg|jpeg);base64,/\<close> of line 17.\<close>

definition data_url_prefix :: regex where
  "data_url_prefix =
     Cat Bol
       (Cat (Lit (js ''data:image/''))
          (Cat (Alt (Lit (js ''png'')) (Alt (Lit (js ''jpg'')) (Lit (js ''jpeg''))))
             (Lit (js '';base64,''))))"

section \<open>JSON values and \<^verbatim>\<open>JSON.parse\<close>\<close>

text \<open>
  The Number values \<^verbatim>\<open>JSON.parse\<close> can return: a finite double other than \<open>-0\<close>,
  given by its exact value, or \<open>-0\<close>, or an infinity. \<^verbatim>\<open>NaN\<close> has no literal in
  JSON.
\<close>

datatype js_number =
    Finite rat
  | MinusZero
  | PlusInfinity
  | MinusInfinity

text \<open>
  The values \<^verbatim>\<open>JSON.parse\<close> can return. An object is the list of its properties in
  the order of their first occurrence in the text; the order in which JavaScript
  enumerates them is not modelled, and nothing below depends on it.
\<close>

datatype json =
    JNull
  | JBool bool
  | JNumber js_number
  | JString js_string
  | JArray "json list"
  | JObject "(js_string \<times> json) list"

datatype js_error =
    Error js_string
  | SyntaxError
  | ApiError js_string

subsection \<open>Tokens\<close>

datatype token =
    TLBrace | TRBrace | TLBracket | TRBracket | TColon | TComma
  | TString js_string | TNumber js_number | TTrue | TFalse | TNull

definition is_ws :: "code_unit \<Rightarrow> bool" where
  "is_ws c = (c = 0x20 \<or> c = 0x09 \<or> c = 0x0A \<or> c = 0x0D)"

definition is_digit :: "code_unit \<Rightarrow> bool" where
  "is_digit c = (0x30 \<le> c \<and> c \<le> 0x39)"

definition hex_val :: "code_unit \<Rightarrow> code_unit option" where
  "hex_val c =
     (if 0x30 \<le> c \<and> c \<le> 0x39 then Some (c - 0x30)
      else if 0x41 \<le> c \<and> c \<le> 0x46 then Some (c - 0x41 + 10)
      else if 0x61 \<le> c \<and> c \<le> 0x66 then Some (c - 0x61 + 10)
      else None)"

text \<open>The single-character escapes: quote, backslash, slash, b, f, n, r, t.\<close>

definition unescape :: "code_unit \<Rightarrow> code_unit option" where
  "unescape e =
     (if e = 0x22 then Some 0x22
      else if e = 0x5C then Some 0x5C
      else if e = 0x2F then Some 0x2F
      else if e = 0x62 then Some 0x08
      else if e = 0x66 then Some 0x0C
      else if e = 0x6E then Some 0x0A
      else if e = 0x72 then Some 0x0D
      else if e = 0x74 then Some 0x09
      else None)"

definition push_unit ::
  "code_unit \<Rightarrow> (js_string \<times> js_string) option \<Rightarrow> (js_string \<times> js_string) option" where
  "push_unit c r = (case r of None \<Rightarrow> None | Some (str, rest) \<Rightarrow> Some (c # str, rest))"

text \<open>
  The body of a string literal, after its opening quote: the decoded text and the input
  after the closing quote. Code units below 0x20 must be escaped.
\<close>

fun lex_string :: "js_string \<Rightarrow> (js_string \<times> js_string) option" where
  "lex_string [] = None"
| "lex_string (c # cs) =
     (if c = 0x22 then Some ([], cs)
      else if c = 0x5C then
        (case cs of
           [] \<Rightarrow> None
         | e # cs1 \<Rightarrow>
             if e = 0x75 then
               (case cs1 of
                  h1 # h2 # h3 # h4 # cs2 \<Rightarrow>
                    (case (hex_val h1, hex_val h2, hex_val h3, hex_val h4) of
                       (Some a, Some b, Some c, Some d) \<Rightarrow>
                         push_unit (a * 0x1000 + b * 0x100 + c * 0x10 + d) (lex_string cs2)
                     | _ \<Rightarrow> None)
                | _ \<Rightarrow> None)
             else
               (case unescape e of
                  None \<Rightarrow> None
                | Some u \<Rightarrow> push_unit u (lex_string cs1)))
      else if c < 0x20 then None
      else push_unit c (lex_string cs))"

definition digits_val :: "js_string \<Rightarrow> int" where
  "digits_val ds = foldl (\<lambda>a c. 10 * a + uint (c - 0x30)) 0 ds"

text \<open>
  The Number value of a literal with the digits \<open>m\<close> and the decimal exponent \<open>e\<close>, that
  is of \<open>m * 10 ^ e\<close>: the double nearest to it, the one with the even significand when
  two are equally near, and an infinity from \<open>2 ^ 1024\<close> on. The doubles are the numbers
  \<open>s * 2 ^ k\<close> with \<open>s < 2 ^ 53\<close> and \<open>- 1074 \<le> k\<close>. A minus sign in front of the
  literal negates the result, so that \<^verbatim>\<open>-0\<close> is \<open>-0\<close>.
\<close>

definition pow2 :: "int \<Rightarrow> rat" where
  "pow2 e = (if 0 \<le> e then 2 ^ nat e else 1 / 2 ^ nat (- e))"

definition decimal_fraction :: "int \<Rightarrow> int \<Rightarrow> int \<times> int" where
  "decimal_fraction m e = (if 0 \<le> e then (m * 10 ^ nat e, 1) else (m, 10 ^ nat (- e)))"

text \<open>The integer part of the binary logarithm of \<open>p / q\<close>, for positive \<open>p\<close> and \<open>q\<close>.\<close>

definition floor_log2 :: "int \<Rightarrow> int \<Rightarrow> int" where
  "floor_log2 p q =
     (let k = bitlen p - bitlen q
      in if (if 0 \<le> k then q * 2 ^ nat k \<le> p else q \<le> p * 2 ^ nat (- k)) then k
         else k - 1)"

text \<open>The integer nearest to \<open>num / den\<close>, the even one of two that are equally near.\<close>

definition round_half_even :: "int \<Rightarrow> int \<Rightarrow> int" where
  "round_half_even num den =
     (let f = num div den; r = num mod den
      in if 2 * r < den then f else if den < 2 * r then f + 1
         else if even f then f else f + 1)"

text \<open>The significand and the binary exponent of the double nearest to \<open>p / q\<close>.\<close>

definition nearest_double :: "int \<Rightarrow> int \<Rightarrow> int \<times> int" where
  "nearest_double p q =
     (let e = max (floor_log2 p q - 52) (- 1074)
      in (if 0 \<le> e then round_half_even p (q * 2 ^ nat e)
          else round_half_even (p * 2 ^ nat (- e)) q, e))"

definition number_value :: "bool \<Rightarrow> int \<Rightarrow> int \<Rightarrow> js_number" where
  "number_value neg m e =
     (if m = 0 then (if neg then MinusZero else Finite 0)
      else
        case decimal_fraction m e of
          (p, q) \<Rightarrow>
            (case nearest_double p q of
               (s, k) \<Rightarrow>
                 if s = 0 then (if neg then MinusZero else Finite 0)
                 else if 1024 < bitlen s + k
                   then (if neg then MinusInfinity else PlusInfinity)
                 else Finite (if neg then - (of_int s * pow2 k) else of_int s * pow2 k)))"

text \<open>The integer part of a number: a single 0, or a digit 1-9 and the digits after it.\<close>

definition lex_int :: "js_string \<Rightarrow> (js_string \<times> js_string) option" where
  "lex_int s =
     (case s of
        [] \<Rightarrow> None
      | c # cs \<Rightarrow>
          if c = 0x30 then Some ([c], cs)
          else if is_digit c then Some (takeWhile is_digit s, dropWhile is_digit s)
          else None)"

definition lex_frac :: "js_string \<Rightarrow> (js_string \<times> js_string) option" where
  "lex_frac s =
     (case s of
        [] \<Rightarrow> Some ([], s)
      | c # cs \<Rightarrow>
          if c = 0x2E then
            (if takeWhile is_digit cs = [] then None
             else Some (takeWhile is_digit cs, dropWhile is_digit cs))
          else Some ([], s))"

definition lex_sign :: "js_string \<Rightarrow> bool \<times> js_string" where
  "lex_sign s =
     (case s of
        [] \<Rightarrow> (False, s)
      | g # gs \<Rightarrow>
          if g = 0x2D then (True, gs) else if g = 0x2B then (False, gs) else (False, s))"

definition lex_exp :: "js_string \<Rightarrow> (int \<times> js_string) option" where
  "lex_exp s =
     (case s of
        [] \<Rightarrow> Some (0, s)
      | c # cs \<Rightarrow>
          if c = 0x65 \<or> c = 0x45 then
            (case lex_sign cs of
               (neg, ds) \<Rightarrow>
                 if takeWhile is_digit ds = [] then None
                 else Some ((if neg then - digits_val (takeWhile is_digit ds)
                             else digits_val (takeWhile is_digit ds)),
                            dropWhile is_digit ds))
          else Some (0, s))"

definition lex_minus :: "js_string \<Rightarrow> bool \<times> js_string" where
  "lex_minus s =
     (case s of [] \<Rightarrow> (False, s) | c # cs \<Rightarrow> if c = 0x2D then (True, cs) else (False, s))"

definition lex_number :: "js_string \<Rightarrow> (js_number \<times> js_string) option" where
  "lex_number s =
     (case lex_minus s of
        (neg, s1) \<Rightarrow>
          (case lex_int s1 of
             None \<Rightarrow> None
           | Some (ip, s2) \<Rightarrow>
               (case lex_frac s2 of
                  None \<Rightarrow> None
                | Some (fp, s3) \<Rightarrow>
                    (case lex_exp s3 of
                       None \<Rightarrow> None
                     | Some (ex, s4) \<Rightarrow>
                         Some (number_value neg (digits_val (ip @ fp))
                                 (ex - int (length fp)),
                               s4)))))"

definition lex_word :: "js_string \<Rightarrow> token \<Rightarrow> js_string \<Rightarrow> (token \<times> js_string) option" where
  "lex_word w t s = (if take (length w) s = w then Some (t, drop (length w) s) else None)"

definition lex_token :: "js_string \<Rightarrow> (token \<times> js_string) option" where
  "lex_token s =
     (case s of
        [] \<Rightarrow> None
      | c # cs \<Rightarrow>
          if c = 0x7B then Some (TLBrace, cs)
          else if c = 0x7D then Some (TRBrace, cs)
          else if c = 0x5B then Some (TLBracket, cs)
          else if c = 0x5D then Some (TRBracket, cs)
          else if c = 0x3A then Some (TColon, cs)
          else if c = 0x2C then Some (TComma, cs)
          else if c = 0x22 then map_option (\<lambda>(str, r). (TString str, r)) (lex_string cs)
          else if c = 0x74 then lex_word (js ''true'') TTrue s
          else if c = 0x66 then lex_word (js ''false'') TFalse s
          else if c = 0x6E then lex_word (js ''null'') TNull s
          else map_option (\<lambda>(v, r). (TNumber v, r)) (lex_number s))"

text \<open>Every token takes at least one code unit, which is why the tokenizer terminates.\<close>

lemma lex_string_shorter: "lex_string s = Some (str, r) \<Longrightarrow> length r < length s"
proof (induction s arbitrary: str r rule: lex_string.induct)
  case 1
  then show ?case by simp
next
  case (2 c cs)
  then show ?case
    by (auto simp: push_unit_def less_Suc_eq
        split: if_splits list.splits option.splits prod.splits)
qed

lemma lex_int_shorter: "lex_int s = Some (ip, r) \<Longrightarrow> length r < length s"
  by (auto simp: lex_int_def less_Suc_eq_le length_dropWhile_le split: list.splits if_splits)

lemma lex_frac_shorter: "lex_frac s = Some (fp, r) \<Longrightarrow> length r \<le> length s"
  by (auto simp: lex_frac_def le_Suc_eq length_dropWhile_le split: list.splits if_splits)

lemma lex_sign_shorter: "lex_sign s = (neg, r) \<Longrightarrow> length r \<le> length s"
  by (auto simp: lex_sign_def split: list.splits if_splits)

lemma lex_minus_shorter: "lex_minus s = (neg, r) \<Longrightarrow> length r \<le> length s"
  by (auto simp: lex_minus_def split: list.splits if_splits)

lemma lex_exp_shorter:
  assumes "lex_exp s = Some (ex, r)"
  shows "length r \<le> length s"
proof (cases s)
  case Nil
  with assms show ?thesis by (simp add: lex_exp_def)
next
  case (Cons c cs)
  show ?thesis
  proof (cases "c = 0x65 \<or> c = 0x45")
    case False
    with assms Cons show ?thesis by (auto simp: lex_exp_def)
  next
    case True
    obtain neg ds where sg: "lex_sign cs = (neg, ds)"
      by (cases "lex_sign cs")
    with assms Cons True have "r = dropWhile is_digit ds"
      by (auto simp: lex_exp_def split: if_splits)
    moreover have "length (dropWhile is_digit ds) \<le> length ds"
      by (rule length_dropWhile_le)
    moreover have "length ds \<le> length cs"
      using sg by (rule lex_sign_shorter)
    ultimately show ?thesis using Cons by simp
  qed
qed

lemma lex_number_shorter:
  assumes "lex_number s = Some (v, r)"
  shows "length r < length s"
proof -
  obtain neg s1 where s1: "lex_minus s = (neg, s1)"
    by (cases "lex_minus s")
  from assms s1 obtain ip s2 fp s3 ex where
    parts: "lex_int s1 = Some (ip, s2)" "lex_frac s2 = Some (fp, s3)" "lex_exp s3 = Some (ex, r)"
    by (auto simp: lex_number_def Let_def split: option.splits prod.splits)
  have "length r \<le> length s3" using parts(3) by (rule lex_exp_shorter)
  also have "length s3 \<le> length s2" using parts(2) by (rule lex_frac_shorter)
  also have "length s2 < length s1" using parts(1) by (rule lex_int_shorter)
  also have "length s1 \<le> length s" using s1 by (rule lex_minus_shorter)
  finally show ?thesis .
qed

lemma lex_token_shorter: "lex_token s = Some (t, r) \<Longrightarrow> length r < length s"
  by (auto simp: lex_token_def lex_word_def js_def split: list.splits if_splits
      dest: lex_string_shorter lex_number_shorter less_SucI)

function lex :: "js_string \<Rightarrow> token list option" where
  "lex s =
     (case dropWhile is_ws s of
        [] \<Rightarrow> Some []
      | c # cs \<Rightarrow>
          (case lex_token (c # cs) of
             None \<Rightarrow> None
           | Some (t, r) \<Rightarrow> map_option ((#) t) (lex r)))"
  by pat_completeness auto
termination
proof (relation "measure length")
  show "wf (measure length)" by simp
next
  fix s c cs x t r
  assume "dropWhile is_ws s = c # cs" "lex_token (c # cs) = Some x" "(t, r) = x"
  then have "length r < length (dropWhile is_ws s)"
    using lex_token_shorter by metis
  then show "(r, s) \<in> measure length"
    using length_dropWhile_le [of is_ws s] by simp
qed

subsection \<open>Values\<close>

text \<open>
  The grammar of JSON values, run as a pushdown automaton over the tokens: \<open>parse_value\<close>
  expects a value, \<open>parse_after\<close> has just read one. The stack holds the arrays and
  objects that are still open. A property given twice keeps its first position and takes
  its last value.
\<close>

datatype frame =
    FArray "json list"
  | FObject "(js_string \<times> json) list" js_string

fun set_property ::
  "js_string \<Rightarrow> json \<Rightarrow> (js_string \<times> json) list \<Rightarrow> (js_string \<times> json) list" where
  "set_property k v [] = [(k, v)]"
| "set_property k v (p # ps) = (if fst p = k then (k, v) # ps else p # set_property k v ps)"

fun parse_value :: "frame list \<Rightarrow> token list \<Rightarrow> json option"
  and parse_after :: "json \<Rightarrow> frame list \<Rightarrow> token list \<Rightarrow> json option" where
  "parse_value st [] = None"
| "parse_value st (t # ts) =
     (case t of
        TNull \<Rightarrow> parse_after JNull st ts
      | TTrue \<Rightarrow> parse_after (JBool True) st ts
      | TFalse \<Rightarrow> parse_after (JBool False) st ts
      | TNumber n \<Rightarrow> parse_after (JNumber n) st ts
      | TString s \<Rightarrow> parse_after (JString s) st ts
      | TLBracket \<Rightarrow>
          (case ts of
             TRBracket # ts1 \<Rightarrow> parse_after (JArray []) st ts1
           | _ \<Rightarrow> parse_value (FArray [] # st) ts)
      | TLBrace \<Rightarrow>
          (case ts of
             TRBrace # ts1 \<Rightarrow> parse_after (JObject []) st ts1
           | TString k # TColon # ts1 \<Rightarrow> parse_value (FObject [] k # st) ts1
           | _ \<Rightarrow> None)
      | _ \<Rightarrow> None)"
| "parse_after v [] ts = (if ts = [] then Some v else None)"
| "parse_after v (FArray acc # st) ts =
     (case ts of
        TComma # ts1 \<Rightarrow> parse_value (FArray (v # acc) # st) ts1
      | TRBracket # ts1 \<Rightarrow> parse_after (JArray (rev (v # acc))) st ts1
      | _ \<Rightarrow> None)"
| "parse_after v (FObject ms k # st) ts =
     (case ts of
        TComma # TString k1 # TColon # ts1 \<Rightarrow>
          parse_value (FObject (set_property k v ms) k1 # st) ts1
      | TRBrace # ts1 \<Rightarrow> parse_after (JObject (set_property k v ms)) st ts1
      | _ \<Rightarrow> None)"

text \<open>\<^verbatim>\<open>JSON.parse(text)\<close>: the value, or the \<^verbatim>\<open>SyntaxError\<close> it throws.\<close>

definition JSON_parse :: "js_string \<Rightarrow> js_error + json" where
  "JSON_parse text =
     (case lex text of
        None \<Rightarrow> Inl SyntaxError
      | Some ts \<Rightarrow> (case parse_value [] ts of None \<Rightarrow> Inl SyntaxError | Some v \<Rightarrow> Inr v))"

text \<open>
  The property of an object under a name: \<open>None\<close> for a property the object does not
  have, and for a value that is not an object.
\<close>

definition get_property :: "json \<Rightarrow> js_string \<Rightarrow> json option" where
  "get_property v name = (case v of JObject ms \<Rightarrow> map_of ms name | _ \<Rightarrow> None)"

section \<open>The request\<close>

text \<open>The enumeration \<^verbatim>\<open>Type\<close> of the SDK and the schema objects built from it.\<close>

datatype Type =
    TYPE_UNSPECIFIED | STRING | NUMBER | INTEGER | BOOLEAN | ARRAY | OBJECT | NULL

datatype schema =
  Schema
    (schema_type: Type)
    (schema_enum: "js_string list option")
    (properties: "(js_string \<times> schema) list")
    (items: "schema option")
    (required: "js_string list")

datatype part =
    InlineData (mimeType: js_string) (data: js_string)
  | Text js_string

record config =
  systemInstruction :: js_string
  responseMimeType :: js_string
  responseSchema :: schema

record request =
  model :: js_string
  parts :: "part list"
  config :: config

record response =
  response_text :: "js_string option"

datatype GoogleGenAI = GoogleGenAI (client_apiKey: js_string)

text \<open>The schema literal of lines 57 to 69.\<close>

definition string_schema :: schema where
  "string_schema = Schema STRING None [] None []"

definition analysis_schema :: schema where
  "analysis_schema =
     Schema OBJECT None
       [(js ''plant_name'', string_schema),
        (js ''status'',
           Schema STRING (Some [js ''Healthy'', js ''Diseased'', js ''Uncertain'']) [] None []),
        (js ''disease_name'', string_schema),
        (js ''confidence'', Schema NUMBER None [] None []),
        (js ''treatment_advice'', string_schema),
        (js ''prevention_tips'', Schema ARRAY None [] (Some string_schema) []),
        (js ''watering_advice'', string_schema)]
       None
       [js ''plant_name'', js ''status'', js ''treatment_advice'', js ''confidence'',
        js ''prevention_tips'', js ''watering_advice'']"

text \<open>The two template literals of lines 19 to 43, line by line.\<close>

definition newline :: js_string where
  "newline = [0x0A]"

definition system_instruction :: "js_string \<Rightarrow> js_string" where
  "system_instruction language =
     newline
     @ js ''    You are an expert agricultural plant pathologist and linguist. '' @ newline
     @ js ''    Your task is to analyze plant images and provide diagnosis and advice.'' @ newline
     @ js ''    '' @ newline
     @ js ''    CRITICAL LANGUAGE REQUIREMENT: '' @ newline
     @ js ''    The user has requested the response in '' @ language @ js ''.'' @ newline
     @ js ''    You MUST translate all descriptive fields (plant_name, disease_name, treatment_advice, prevention_tips, watering_advice) into ''
     @ language @ js ''.'' @ newline
     @ js ''    However, the '' @ [0x27] @ js ''status'' @ [0x27]
     @ js '' field MUST remain in English (Healthy, Diseased, Uncertain) for programmatic use.''
     @ newline
     @ js ''  ''"

definition symptoms_line :: "js_string option \<Rightarrow> js_string" where
  "symptoms_line symptoms =
     (if truthy symptoms
      then js ''Additional user-reported symptoms: \"'' @ the symptoms @ js ''\".''
      else [])"

definition prompt :: "js_string \<Rightarrow> js_string option \<Rightarrow> js_string" where
  "prompt language symptoms =
     newline
     @ js ''    Analyze this plant leaf image.'' @ newline
     @ js ''    '' @ symptoms_line symptoms @ newline
     @ js ''    '' @ newline
     @ js ''    Provide the output strictly in JSON format.'' @ newline
     @ js ''    '' @ newline
     @ js ''    Fields required:'' @ newline
     @ js ''    1. plant_name: The common name of the plant (in '' @ language @ js '').'' @ newline
     @ js ''    2. status: One of \"Healthy\", \"Diseased\", \"Uncertain\".'' @ newline
     @ js ''    3. disease_name: The name of the disease (in '' @ language
     @ js ''), or \"None\" if healthy.'' @ newline
     @ js ''    4. confidence: A number between 0 and 100.'' @ newline
     @ js ''    5. treatment_advice: A practical guide to treating the disease (in '' @ language
     @ js '').'' @ newline
     @ js ''    6. prevention_tips: A list of 2-3 tips to prevent recurrence (in '' @ language
     @ js '').'' @ newline
     @ js ''    7. watering_advice: Specific watering instructions for this condition (in ''
     @ language @ js '').'' @ newline
     @ js ''  ''"

text \<open>The argument of \<^verbatim>\<open>generateContent\<close>, lines 46 to 71.\<close>

definition build_request :: "js_string \<Rightarrow> js_string \<Rightarrow> js_string option \<Rightarrow> request" where
  "build_request cleanBase64 language symptoms =
     \<lparr>model = js ''gemini-2.5-flash'',
      parts = [InlineData (js ''image/jpeg'') cleanBase64, Text (prompt language symptoms)],
      config =
        \<lparr>systemInstruction = system_instruction language,
         responseMimeType = js ''application/json'',
         responseSchema = analysis_schema\<rparr>\<rparr>"

section \<open>The module and its environment\<close>

text \<open>
  What the function does not control: the process environment, and the remote service
  behind \<^verbatim>\<open>ai.models.generateContent\<close>, which answers a client and a request with a
  response or throws.
\<close>

record process_env =
  API_KEY :: "js_string option"

record world =
  env :: process_env
  generateContent :: "GoogleGenAI \<Rightarrow> request \<Rightarrow> js_error + response"

text \<open>
  The module's only top-level binding, line 6:
  \<^verbatim>\<open>const apiKey = process.env.API_KEY || ''\<close>, evaluated when the module is loaded.
\<close>

record module =
  apiKey :: js_string

definition load_module :: "process_env \<Rightarrow> module" where
  "load_module e = \<lparr>apiKey = or_else (API_KEY e) []\<rparr>"

text \<open>What a call does to the outside, in order.\<close>

datatype event =
    NewGoogleGenAI js_string
  | GenerateContent GoogleGenAI request
  | ConsoleError js_string js_error

definition missing_key_error :: js_error where
  "missing_key_error =
     Error (js ''API Key is missing. Please set your API_KEY in the Vercel environment variables.'')"

definition analysis_error :: js_error where
  "analysis_error =
     Error (js ''Failed to analyze image. Please check if your API key is valid and has billing enabled.'')"

section \<open>\<^verbatim>\<open>analyzePlantImage\<close>\<close>

text \<open>
  The body of the \<^verbatim>\<open>try\<close> block, lines 46 to 76: the remote call, the test of the
  response text, and the decoding. \<open>Inl\<close> is what the block throws. The type assertion
  \<^verbatim>\<open>as DiseaseAnalysisResult\<close> is erased when the source is compiled, so the value
  returned is the value \<^verbatim>\<open>JSON.parse\<close> returns.
\<close>

definition try_block :: "world \<Rightarrow> GoogleGenAI \<Rightarrow> request \<Rightarrow> js_error + json" where
  "try_block w ai req =
     (case generateContent w ai req of
        Inl thrown \<Rightarrow> Inl thrown
      | Inr resp \<Rightarrow>
          if \<not> truthy (response_text resp) then Inl (Error (js ''No response from AI''))
          else JSON_parse (the (response_text resp)))"

text \<open>
  The function, lines 8 to 82. The promise it returns is modelled by its outcome: \<open>Inl\<close>
  the error it rejects with, \<open>Inr\<close> the value it resolves to, together with the events
  the call caused.
\<close>

definition analyzePlantImage ::
  "module \<Rightarrow> world \<Rightarrow> js_string \<Rightarrow> js_string \<Rightarrow> js_string option
     \<Rightarrow> event list \<times> (js_error + json)" where
  "analyzePlantImage m w base64Image language symptoms =
     (if apiKey m = [] then ([], Inl missing_key_error)
      else
        let ai = GoogleGenAI (apiKey m);
            cleanBase64 = replace data_url_prefix [] base64Image;
            req = build_request cleanBase64 language symptoms
        in case try_block w ai req of
             Inr v \<Rightarrow> ([NewGoogleGenAI (apiKey m), GenerateContent ai req], Inr v)
           | Inl err \<Rightarrow>
               ([NewGoogleGenAI (apiKey m), GenerateContent ai req,
                 ConsoleError (js ''Gemini Analysis Error:'') err],
                Inl analysis_error))"

section \<open>Vocabulary of the properties\<close>

text \<open>The three texts the regular expression of line 17 matches.\<close>

definition recognized_prefixes :: "js_string list" where
  "recognized_prefixes =
     [js ''data:image/png;base64,'', js ''data:image/jpg;base64,'', js ''data:image/jpeg;base64,'']"

text \<open>The requests a call sent, and the image data each of them carries.\<close>

fun requests_sent :: "event list \<Rightarrow> request list" where
  "requests_sent [] = []"
| "requests_sent (GenerateContent ai req # evs) = req # requests_sent evs"
| "requests_sent (_ # evs) = requests_sent evs"

fun image_data :: "part list \<Rightarrow> js_string list" where
  "image_data [] = []"
| "image_data (InlineData mt d # ps) = d # image_data ps"
| "image_data (Text t # ps) = image_data ps"

definition transmitted ::
  "module \<Rightarrow> world \<Rightarrow> js_string \<Rightarrow> js_string \<Rightarrow> js_string option \<Rightarrow> js_string list" where
  "transmitted m w base64Image language symptoms =
     concat (map (\<lambda>req. image_data (parts req))
       (requests_sent (fst (analyzePlantImage m w base64Image language symptoms))))"

text \<open>The outcome of the remote call that a call of the function makes.\<close>

definition remote_call ::
  "module \<Rightarrow> world \<Rightarrow> js_string \<Rightarrow> js_string \<Rightarrow> js_string option \<Rightarrow> js_error + response" where
  "remote_call m w base64Image language symptoms =
     generateContent w (GoogleGenAI (apiKey m))
       (build_request (replace data_url_prefix [] base64Image) language symptoms)"

text \<open>
  What a schema object asks of a value: the value has the schema's type; a string is one
  of the enumerated texts when there are any; the elements of an array satisfy the schema
  of the items; an object has every required property, and each declared property it has
  satisfies its schema. Properties that are not declared are allowed.
\<close>

definition is_integer :: "js_number \<Rightarrow> bool" where
  "is_integer n =
     (case n of Finite r \<Rightarrow> snd (quotient_of r) = 1 | MinusZero \<Rightarrow> True | _ \<Rightarrow> False)"

fun conforms :: "schema \<Rightarrow> json \<Rightarrow> bool" where
  "conforms (Schema t en props its req) v =
     (case t of
        TYPE_UNSPECIFIED \<Rightarrow> True
      | STRING \<Rightarrow>
          (case v of
             JString s \<Rightarrow> (case en of None \<Rightarrow> True | Some allowed \<Rightarrow> s \<in> set allowed)
           | _ \<Rightarrow> False)
      | NUMBER \<Rightarrow> (case v of JNumber n \<Rightarrow> True | _ \<Rightarrow> False)
      | INTEGER \<Rightarrow> (case v of JNumber n \<Rightarrow> is_integer n | _ \<Rightarrow> False)
      | BOOLEAN \<Rightarrow> (case v of JBool b \<Rightarrow> True | _ \<Rightarrow> False)
      | ARRAY \<Rightarrow>
          (case v of
             JArray vs \<Rightarrow> (case its of None \<Rightarrow> True | Some s \<Rightarrow> list_all (conforms s) vs)
           | _ \<Rightarrow> False)
      | OBJECT \<Rightarrow>
          (case v of
             JObject ms \<Rightarrow>
               list_all (\<lambda>k. map_of ms k \<noteq> None) req
               \<and> list_all
                   (\<lambda>(k, s). case map_of ms k of None \<Rightarrow> True | Some x \<Rightarrow> conforms s x)
                   props
           | _ \<Rightarrow> False)
      | NULL \<Rightarrow> v = JNull)"

text \<open>The seven property names of the result.\<close>

definition result_fields :: "js_string list" where
  "result_fields =
     [js ''plant_name'', js ''status'', js ''disease_name'', js ''confidence'',
      js ''treatment_advice'', js ''prevention_tips'', js ''watering_advice'']"

text \<open>Two simple environments: a service that answers every request with the same text,
  and one that always throws.\<close>

definition world_replying :: "js_string option \<Rightarrow> world" where
  "world_replying t =
     \<lparr>env = \<lparr>API_KEY = None\<rparr>,
      generateContent = (\<lambda>ai req. Inr \<lparr>response_text = t\<rparr>)\<rparr>"

definition world_throwing :: "js_error \<Rightarrow> world" where
  "world_throwing thrown =
     \<lparr>env = \<lparr>API_KEY = None\<rparr>,
      generateContent = (\<lambda>ai req. Inl thrown)\<rparr>"

text \<open>
  A response text with all seven properties, with the confidence and the prevention tips
  left open, and the value it decodes to.
\<close>

definition sample_text :: "js_string \<Rightarrow> js_string \<Rightarrow> js_string" where
  "sample_text confidence tips =
     js ''{\"plant_name\":\"Tomato\",\"status\":\"Diseased\",\"disease_name\":\"Early blight\",\"confidence\":''
     @ confidence
     @ js '',\"treatment_advice\":\"Remove affected leaves\",\"prevention_tips\":''
     @ tips
     @ js '',\"watering_advice\":\"Water at the base\"}''"

definition sample_value :: "rat \<Rightarrow> json list \<Rightarrow> json" where
  "sample_value confidence tips =
     JObject
       [(js ''plant_name'', JString (js ''Tomato'')),
        (js ''status'', JString (js ''Diseased'')),
        (js ''disease_name'', JString (js ''Early blight'')),
        (js ''confidence'', JNumber (Finite confidence)),
        (js ''treatment_advice'', JString (js ''Remove affected leaves'')),
        (js ''prevention_tips'', JArray tips),
        (js ''watering_advice'', JString (js ''Water at the base''))]"

declare lex.simps [simp del]

section \<open>The data-URL prefix\<close>

lemma take_eq_prefix: "take (length l) s = l \<longleftrightarrow> prefix l s"
  by (metis append_take_drop_id prefix_def append_eq_conv_conj)

lemma prefix_append_drop: "prefix (a @ b) s \<longleftrightarrow> prefix a s \<and> prefix b (drop (length a) s)"
  by (auto simp: prefix_def)

text \<open>An anchored expression can only match at index 0, so the search stops there.\<close>

lemma regexp_exec_anchored_later: "0 < i \<Longrightarrow> regexp_exec (Cat Bol r) i s = None"
  by (induction s arbitrary: i) simp_all

lemma regexp_exec_anchored:
  "regexp_exec (Cat Bol r) 0 s =
     (case rmatch r 0 s of [] \<Rightarrow> None | rest # _ \<Rightarrow> Some (0, rest))"
  by (cases s) (simp_all add: regexp_exec_anchored_later split: list.splits)

lemma replace_anchored:
  "replace (Cat Bol r) rep s = (case rmatch r 0 s of [] \<Rightarrow> s | rest # _ \<Rightarrow> rep @ rest)"
  by (simp add: replace_def regexp_exec_anchored split: list.splits)

lemma rmatch_Cat_Lit:
  "rmatch (Cat (Lit l) r) i s =
     (if prefix l s
      then rmatch r (i + (length s - length (drop (length l) s))) (drop (length l) s)
      else [])"
  by (simp add: take_eq_prefix)

lemma rmatch_Lit_Lit:
  "rmatch (Cat (Lit P) (Lit B)) i s =
     (if prefix (P @ B) s then [drop (length (P @ B)) s] else [])"
  by (simp add: take_eq_prefix prefix_append_drop add.commute)

lemma rmatch_Cat_Alt:
  "rmatch (Cat (Alt a b) c) i s = rmatch (Cat a c) i s @ rmatch (Cat b c) i s"
  by simp

lemma rmatch_alternatives:
  "rmatch (Cat (Alt (Lit P) (Alt (Lit Q) (Lit R))) (Lit B)) i s =
     (if prefix (P @ B) s then [drop (length (P @ B)) s] else [])
     @ (if prefix (Q @ B) s then [drop (length (Q @ B)) s] else [])
     @ (if prefix (R @ B) s then [drop (length (R @ B)) s] else [])"
  unfolding rmatch_Cat_Alt rmatch_Lit_Lit ..

lemma rmatch_body:
  "rmatch (Cat (Lit A) (Cat (Alt (Lit P) (Alt (Lit Q) (Lit R))) (Lit B))) i s =
     (if prefix (A @ P @ B) s then [drop (length (A @ P @ B)) s] else [])
     @ (if prefix (A @ Q @ B) s then [drop (length (A @ Q @ B)) s] else [])
     @ (if prefix (A @ R @ B) s then [drop (length (A @ R @ B)) s] else [])"
proof (cases "prefix A s")
  case False
  then show ?thesis
    unfolding rmatch_Cat_Lit by (simp add: prefix_append_drop)
next
  case True
  then show ?thesis
    unfolding rmatch_Cat_Lit rmatch_alternatives
    by (simp add: prefix_append_drop [of A] add.commute)
qed

lemma prefix_literals:
  "js ''data:image/png;base64,'' = js ''data:image/'' @ js ''png'' @ js '';base64,''"
  "js ''data:image/jpg;base64,'' = js ''data:image/'' @ js ''jpg'' @ js '';base64,''"
  "js ''data:image/jpeg;base64,'' = js ''data:image/'' @ js ''jpeg'' @ js '';base64,''"
  by (simp_all add: js_def)

text \<open>What line 17 computes, without the regular expression.\<close>

lemma replace_data_url_prefix:
  "replace data_url_prefix [] s =
     (if prefix (js ''data:image/png;base64,'') s
        then drop (length (js ''data:image/png;base64,'')) s
      else if prefix (js ''data:image/jpg;base64,'') s
        then drop (length (js ''data:image/jpg;base64,'')) s
      else if prefix (js ''data:image/jpeg;base64,'') s
        then drop (length (js ''data:image/jpeg;base64,'')) s
      else s)"
  unfolding data_url_prefix_def replace_anchored rmatch_body prefix_literals
  by simp

lemma replace_recognized:
  assumes "p \<in> set recognized_prefixes"
  shows "replace data_url_prefix [] (p @ rest) = rest"
proof -
  from assms consider
      "p = js ''data:image/png;base64,''"
    | "p = js ''data:image/jpg;base64,''"
    | "p = js ''data:image/jpeg;base64,''"
    by (auto simp: recognized_prefixes_def)
  then show ?thesis
  proof cases
    case 1
    then show ?thesis by (simp add: replace_data_url_prefix)
  next
    case 2
    have "\<not> prefix (js ''data:image/png;base64,'') (js ''data:image/jpg;base64,'' @ rest)"
      by (simp add: js_def)
    with 2 show ?thesis by (simp add: replace_data_url_prefix)
  next
    case 3
    have "\<not> prefix (js ''data:image/png;base64,'') (js ''data:image/jpeg;base64,'' @ rest)"
      and "\<not> prefix (js ''data:image/jpg;base64,'') (js ''data:image/jpeg;base64,'' @ rest)"
      by (simp_all add: js_def)
    with 3 show ?thesis by (simp add: replace_data_url_prefix)
  qed
qed

lemma replace_unrecognized:
  assumes "\<not> (\<exists>p \<in> set recognized_prefixes. prefix p s)"
  shows "replace data_url_prefix [] s = s"
  using assms by (simp add: replace_data_url_prefix recognized_prefixes_def)

text \<open>The events of a call that passes the test of the credential.\<close>

lemma events_with_key:
  assumes "apiKey m \<noteq> []"
  shows "requests_sent (fst (analyzePlantImage m w b l sy)) =
           [build_request (replace data_url_prefix [] b) l sy]"
  using assms by (simp add: analyzePlantImage_def Let_def split: sum.splits)

lemma transmitted_with_key:
  assumes "apiKey m \<noteq> []"
  shows "transmitted m w b l sy = [replace data_url_prefix [] b]"
  using assms by (simp add: transmitted_def events_with_key build_request_def)

text \<open>
  C2. When the image string begins with one of the prefixes
  \<^verbatim>\<open>data:image/png;base64,\<close>, \<^verbatim>\<open>data:image/jpg;base64,\<close> or
  \<^verbatim>\<open>data:image/jpeg;base64,\<close>, the one request the call sends is the request built
  from the string without that prefix: its image part holds the rest of the string.
\<close>

theorem data_url_prefix_removed:
  assumes "apiKey m \<noteq> []" and "p \<in> set recognized_prefixes"
  shows "requests_sent (fst (analyzePlantImage m w (p @ rest) language symptoms)) =
           [build_request rest language symptoms]
         \<and> parts (build_request rest language symptoms) =
           [InlineData (js ''image/jpeg'') rest, Text (prompt language symptoms)]"
  using assms by (simp add: events_with_key replace_recognized build_request_def)

theorem data_url_prefix_removed_witness:
  "apiKey \<lparr>apiKey = js ''key''\<rparr> \<noteq> []
   \<and> js ''data:image/png;base64,'' \<in> set recognized_prefixes
   \<and> requests_sent (fst (analyzePlantImage \<lparr>apiKey = js ''key''\<rparr> (world_replying None)
         (js ''data:image/png;base64,iVBORw0KGgo='') (js ''English'') None)) =
       [build_request (js ''iVBORw0KGgo='') (js ''English'') None]"
proof -
  have key: "apiKey \<lparr>apiKey = js ''key''\<rparr> \<noteq> []"
    by (simp add: js_def)
  have pre: "js ''data:image/png;base64,'' \<in> set recognized_prefixes"
    by (simp add: recognized_prefixes_def)
  have input: "js ''data:image/png;base64,iVBORw0KGgo='' =
      js ''data:image/png;base64,'' @ js ''iVBORw0KGgo=''"
    by (simp add: js_def)
  show ?thesis
    using key pre
      data_url_prefix_removed [OF key pre, of "world_replying None" "js ''iVBORw0KGgo=''"
        "js ''English''" None]
    unfolding input by simp
qed

text \<open>
  C10. A string that begins with none of the three lowercase prefixes is transmitted as it
  is: another media type, an uppercase spelling, or a prefix that only occurs later in the
  string change nothing. From a string that begins with one of them, that one leading
  occurrence is removed and everything after it is transmitted as it is, also when it
  begins with a prefix again.
\<close>

theorem prefix_stripping_exact:
  assumes "apiKey m \<noteq> []"
  shows "(\<not> (\<exists>p \<in> set recognized_prefixes. prefix p s)
            \<longrightarrow> transmitted m w s language symptoms = [s])
         \<and> (\<forall>p \<in> set recognized_prefixes. \<forall>rest. s = p @ rest
            \<longrightarrow> transmitted m w s language symptoms = [rest])"
  using assms by (auto simp: transmitted_with_key replace_recognized replace_unrecognized)

theorem prefix_stripping_exact_witness:
  "apiKey \<lparr>apiKey = js ''key''\<rparr> \<noteq> []
   \<and> \<not> (\<exists>p \<in> set recognized_prefixes. prefix p (js ''data:image/webp;base64,UklGRg==''))
   \<and> transmitted \<lparr>apiKey = js ''key''\<rparr> (world_replying None)
         (js ''data:image/webp;base64,UklGRg=='') (js ''English'') None =
       [js ''data:image/webp;base64,UklGRg=='']
   \<and> \<not> (\<exists>p \<in> set recognized_prefixes. prefix p (js ''DATA:IMAGE/PNG;BASE64,iVBORw==''))
   \<and> transmitted \<lparr>apiKey = js ''key''\<rparr> (world_replying None)
         (js ''DATA:IMAGE/PNG;BASE64,iVBORw=='') (js ''English'') None =
       [js ''DATA:IMAGE/PNG;BASE64,iVBORw=='']
   \<and> \<not> (\<exists>p \<in> set recognized_prefixes. prefix p (js '' data:image/png;base64,iVBORw==''))
   \<and> transmitted \<lparr>apiKey = js ''key''\<rparr> (world_replying None)
         (js '' data:image/png;base64,iVBORw=='') (js ''English'') None =
       [js '' data:image/png;base64,iVBORw=='']
   \<and> js ''data:image/jpeg;base64,'' \<in> set recognized_prefixes
   \<and> transmitted \<lparr>apiKey = js ''key''\<rparr> (world_replying None)
         (js ''data:image/jpeg;base64,'' @ js ''data:image/jpeg;base64,/9j/4A=='')
         (js ''English'') None =
       [js ''data:image/jpeg;base64,/9j/4A=='']"
proof -
  let ?m = "\<lparr>apiKey = js ''key''\<rparr>"
  let ?w = "world_replying None"
  have key: "apiKey ?m \<noteq> []"
    by (simp add: js_def)
  have webp: "\<not> (\<exists>p \<in> set recognized_prefixes. prefix p (js ''data:image/webp;base64,UklGRg==''))"
    by (simp add: recognized_prefixes_def js_def)
  have upper: "\<not> (\<exists>p \<in> set recognized_prefixes. prefix p (js ''DATA:IMAGE/PNG;BASE64,iVBORw==''))"
    by (simp add: recognized_prefixes_def js_def)
  have later: "\<not> (\<exists>p \<in> set recognized_prefixes. prefix p (js '' data:image/png;base64,iVBORw==''))"
    by (simp add: recognized_prefixes_def js_def)
  have jpeg: "js ''data:image/jpeg;base64,'' \<in> set recognized_prefixes"
    by (simp add: recognized_prefixes_def)
  note unchanged = prefix_stripping_exact [OF key, THEN conjunct1, rule_format]
  note stripped = prefix_stripping_exact [OF key, THEN conjunct2, rule_format]
  show ?thesis
    using key webp upper later jpeg
      unchanged [OF webp, where w = ?w and language = "js ''English''" and symptoms = None]
      unchanged [OF upper, where w = ?w and language = "js ''English''" and symptoms = None]
      unchanged [OF later, where w = ?w and language = "js ''English''" and symptoms = None]
      stripped [OF jpeg refl, where rest = "js ''data:image/jpeg;base64,/9j/4A==''" and w = ?w
        and language = "js ''English''" and symptoms = None]
    by simp
qed

section \<open>The credential\<close>

text \<open>
  C3. A call made while the credential is empty fails with the error that says the API
  key is missing, and causes no event at all: no client is constructed and no request is
  sent. The credential is empty when the environment variable was absent or empty as the
  module was loaded.
\<close>

theorem missing_credential_fails_before_io:
  "(apiKey m = []
      \<longrightarrow> analyzePlantImage m w base64Image language symptoms = ([], Inl missing_key_error))
   \<and> (API_KEY e = None \<or> API_KEY e = Some []
      \<longrightarrow> analyzePlantImage (load_module e) w base64Image language symptoms =
            ([], Inl missing_key_error))"
  by (auto simp: analyzePlantImage_def load_module_def or_else_def)

theorem missing_credential_fails_before_io_witness:
  "apiKey \<lparr>apiKey = []\<rparr> = []
   \<and> analyzePlantImage \<lparr>apiKey = []\<rparr> (world_replying (Some (js ''42'')))
         (js ''iVBORw=='') (js ''English'') None =
       ([], Inl (Error (js ''API Key is missing. Please set your API_KEY in the Vercel environment variables.'')))
   \<and> API_KEY \<lparr>API_KEY = None\<rparr> = None
   \<and> analyzePlantImage (load_module \<lparr>API_KEY = None\<rparr>) (world_replying (Some (js ''42'')))
         (js ''iVBORw=='') (js ''English'') None =
       ([], Inl missing_key_error)
   \<and> API_KEY \<lparr>API_KEY = Some []\<rparr> = Some []
   \<and> analyzePlantImage (load_module \<lparr>API_KEY = Some []\<rparr>) (world_replying (Some (js ''42'')))
         (js ''iVBORw=='') (js ''English'') None =
       ([], Inl missing_key_error)"
proof -
  let ?w = "world_replying (Some (js ''42''))"
  note direct = missing_credential_fails_before_io [THEN conjunct1, rule_format]
  note loaded = missing_credential_fails_before_io [THEN conjunct2, rule_format]
  have absent: "API_KEY \<lparr>API_KEY = None\<rparr> = None \<or> API_KEY \<lparr>API_KEY = None\<rparr> = Some []"
    by simp
  have empty: "API_KEY \<lparr>API_KEY = Some []\<rparr> = None \<or> API_KEY \<lparr>API_KEY = Some []\<rparr> = Some []"
    by simp
  have none: "apiKey \<lparr>apiKey = []\<rparr> = []"
    by simp
  show ?thesis
    using direct [OF none, of ?w "js ''iVBORw==''" "js ''English''" None]
      loaded [OF absent, of ?w "js ''iVBORw==''" "js ''English''" None]
      loaded [OF empty, of ?w "js ''iVBORw==''" "js ''English''" None]
    by (simp add: missing_key_error_def)
qed

section \<open>The request schema\<close>

text \<open>
  C7. Every request a call sends asks for JSON and carries a response schema of type object
  that declares exactly the seven properties \<^verbatim>\<open>plant_name\<close>, \<^verbatim>\<open>status\<close>,
  \<^verbatim>\<open>disease_name\<close>, \<^verbatim>\<open>confidence\<close>, \<^verbatim>\<open>treatment_advice\<close>,
  \<^verbatim>\<open>prevention_tips\<close> and \<^verbatim>\<open>watering_advice\<close>, requires the six of them other
  than \<^verbatim>\<open>disease_name\<close>, and restricts \<^verbatim>\<open>status\<close> to the texts Healthy, Diseased
  and Uncertain.
\<close>

theorem request_schema_declared:
  "\<forall>req \<in> set (requests_sent (fst (analyzePlantImage m w base64Image language symptoms))).
     responseMimeType (config req) = js ''application/json''
     \<and> schema_type (responseSchema (config req)) = OBJECT
     \<and> map fst (properties (responseSchema (config req))) = result_fields
     \<and> required (responseSchema (config req)) =
         [js ''plant_name'', js ''status'', js ''treatment_advice'', js ''confidence'',
          js ''prevention_tips'', js ''watering_advice'']
     \<and> js ''disease_name'' \<notin> set (required (responseSchema (config req)))
     \<and> map_of (properties (responseSchema (config req))) (js ''status'') =
         Some (Schema STRING (Some [js ''Healthy'', js ''Diseased'', js ''Uncertain'']) [] None [])"
proof (cases "apiKey m = []")
  case True
  then show ?thesis by (simp add: analyzePlantImage_def)
next
  case False
  have names: "js ''disease_name'' \<notin>
      set [js ''plant_name'', js ''status'', js ''treatment_advice'', js ''confidence'',
           js ''prevention_tips'', js ''watering_advice'']"
    by (simp add: js_def)
  have status: "js ''plant_name'' \<noteq> js ''status''"
    by (simp add: js_def)
  from False names status show ?thesis
    by (simp add: events_with_key build_request_def analysis_schema_def result_fields_def)
qed

theorem request_schema_declared_witness:
  "build_request (js ''iVBORw=='') (js ''Hindi'') (Some (js ''yellow spots''))
     \<in> set (requests_sent (fst (analyzePlantImage \<lparr>apiKey = js ''key''\<rparr> (world_replying None)
          (js ''iVBORw=='') (js ''Hindi'') (Some (js ''yellow spots'')))))
   \<and> map fst (properties (responseSchema (config
         (build_request (js ''iVBORw=='') (js ''Hindi'') (Some (js ''yellow spots'')))))) =
       result_fields
   \<and> required (responseSchema (config
         (build_request (js ''iVBORw=='') (js ''Hindi'') (Some (js ''yellow spots''))))) =
       [js ''plant_name'', js ''status'', js ''treatment_advice'', js ''confidence'',
        js ''prevention_tips'', js ''watering_advice'']
   \<and> map_of (properties (responseSchema (config
         (build_request (js ''iVBORw=='') (js ''Hindi'') (Some (js ''yellow spots'')))))) (js ''status'') =
       Some (Schema STRING (Some [js ''Healthy'', js ''Diseased'', js ''Uncertain'']) [] None [])"
proof -
  have key: "apiKey \<lparr>apiKey = js ''key''\<rparr> \<noteq> []"
    by (simp add: js_def)
  have plain: "\<not> (\<exists>p \<in> set recognized_prefixes. prefix p (js ''iVBORw==''))"
    by (simp add: recognized_prefixes_def js_def)
  have sent: "build_request (js ''iVBORw=='') (js ''Hindi'') (Some (js ''yellow spots''))
      \<in> set (requests_sent (fst (analyzePlantImage \<lparr>apiKey = js ''key''\<rparr> (world_replying None)
          (js ''iVBORw=='') (js ''Hindi'') (Some (js ''yellow spots'')))))"
    using plain by (simp add: events_with_key [OF key] replace_unrecognized)
  show ?thesis
    using sent request_schema_declared [THEN bspec, OF sent] by simp
qed

section \<open>Failures of the analysis\<close>

lemma JSON_parse_empty: "JSON_parse [] = Inl SyntaxError"
  by (simp add: JSON_parse_def lex.simps)

lemma try_block_eq:
  "try_block w ai req =
     (case generateContent w ai req of
        Inl thrown \<Rightarrow> Inl thrown
      | Inr resp \<Rightarrow>
          (case response_text resp of
             None \<Rightarrow> Inl (Error (js ''No response from AI''))
           | Some t \<Rightarrow>
               if t = [] then Inl (Error (js ''No response from AI'')) else JSON_parse t))"
  by (simp add: try_block_def truthy_def split: sum.splits option.splits)

text \<open>The outcome of a call that passes the test of the credential.\<close>

lemma outcome_with_key:
  assumes "apiKey m \<noteq> []"
  shows "snd (analyzePlantImage m w b l sy) =
     (case remote_call m w b l sy of
        Inl thrown \<Rightarrow> Inl analysis_error
      | Inr resp \<Rightarrow>
          (case response_text resp of
             None \<Rightarrow> Inl analysis_error
           | Some t \<Rightarrow>
               (case JSON_parse t of Inl e \<Rightarrow> Inl analysis_error | Inr v \<Rightarrow> Inr v)))"
  using assms
  by (simp add: analyzePlantImage_def Let_def try_block_eq remote_call_def JSON_parse_empty
      split: sum.splits option.splits)

lemma remote_call_replying:
  "remote_call m (world_replying t) b l sy = Inr \<lparr>response_text = t\<rparr>"
  by (simp add: remote_call_def world_replying_def)

lemma remote_call_throwing:
  "remote_call m (world_throwing thrown) b l sy = Inl thrown"
  by (simp add: remote_call_def world_throwing_def)

text \<open>
  C4. When the remote call throws, or the response has no text or an empty text, or the
  text is not JSON, the call fails with the one analysis error, whose message suggests
  checking that the API key is valid and has billing enabled. What was thrown inside the
  call is not what the caller receives.
\<close>

theorem analysis_failures_uniform:
  assumes "apiKey m \<noteq> []"
    and "(\<exists>thrown. remote_call m w base64Image language symptoms = Inl thrown)
         \<or> (\<exists>resp. remote_call m w base64Image language symptoms = Inr resp
              \<and> (response_text resp = None
                 \<or> response_text resp = Some []
                 \<or> (\<exists>t err. response_text resp = Some t \<and> JSON_parse t = Inl err)))"
  shows "snd (analyzePlantImage m w base64Image language symptoms) = Inl analysis_error"
  using assms by (auto simp: outcome_with_key JSON_parse_empty)

theorem analysis_failures_uniform_witness:
  "apiKey \<lparr>apiKey = js ''key''\<rparr> \<noteq> []
   \<and> remote_call \<lparr>apiKey = js ''key''\<rparr> (world_throwing (ApiError (js ''API key not valid'')))
         (js ''iVBORw=='') (js ''English'') None = Inl (ApiError (js ''API key not valid''))
   \<and> snd (analyzePlantImage \<lparr>apiKey = js ''key''\<rparr> (world_throwing (ApiError (js ''API key not valid'')))
         (js ''iVBORw=='') (js ''English'') None) =
       Inl (Error (js ''Failed to analyze image. Please check if your API key is valid and has billing enabled.''))
   \<and> snd (analyzePlantImage \<lparr>apiKey = js ''key''\<rparr> (world_replying None)
         (js ''iVBORw=='') (js ''English'') None) = Inl analysis_error
   \<and> snd (analyzePlantImage \<lparr>apiKey = js ''key''\<rparr> (world_replying (Some []))
         (js ''iVBORw=='') (js ''English'') None) = Inl analysis_error
   \<and> JSON_parse (js ''not json'') = Inl SyntaxError
   \<and> snd (analyzePlantImage \<lparr>apiKey = js ''key''\<rparr> (world_replying (Some (js ''not json'')))
         (js ''iVBORw=='') (js ''English'') None) = Inl analysis_error"
proof -
  let ?m = "\<lparr>apiKey = js ''key''\<rparr>"
  have key: "apiKey ?m \<noteq> []"
    by (simp add: js_def)
  have bad: "JSON_parse (js ''not json'') = Inl SyntaxError"
    by code_simp
  have thrown: "(\<exists>thrown. remote_call ?m (world_throwing (ApiError (js ''API key not valid'')))
        (js ''iVBORw=='') (js ''English'') None = Inl thrown) \<or>
      (\<exists>resp. remote_call ?m (world_throwing (ApiError (js ''API key not valid'')))
        (js ''iVBORw=='') (js ''English'') None = Inr resp
         \<and> (response_text resp = None \<or> response_text resp = Some []
            \<or> (\<exists>t err. response_text resp = Some t \<and> JSON_parse t = Inl err)))"
    by (simp add: remote_call_throwing)
  have missing: "(\<exists>thrown. remote_call ?m (world_replying None)
        (js ''iVBORw=='') (js ''English'') None = Inl thrown) \<or>
      (\<exists>resp. remote_call ?m (world_replying None)
        (js ''iVBORw=='') (js ''English'') None = Inr resp
         \<and> (response_text resp = None \<or> response_text resp = Some []
            \<or> (\<exists>t err. response_text resp = Some t \<and> JSON_parse t = Inl err)))"
    by (simp add: remote_call_replying)
  have empty: "(\<exists>thrown. remote_call ?m (world_replying (Some []))
        (js ''iVBORw=='') (js ''English'') None = Inl thrown) \<or>
      (\<exists>resp. remote_call ?m (world_replying (Some []))
        (js ''iVBORw=='') (js ''English'') None = Inr resp
         \<and> (response_text resp = None \<or> response_text resp = Some []
            \<or> (\<exists>t err. response_text resp = Some t \<and> JSON_parse t = Inl err)))"
    by (simp add: remote_call_replying)
  have malformed: "(\<exists>thrown. remote_call ?m (world_replying (Some (js ''not json'')))
        (js ''iVBORw=='') (js ''English'') None = Inl thrown) \<or>
      (\<exists>resp. remote_call ?m (world_replying (Some (js ''not json'')))
        (js ''iVBORw=='') (js ''English'') None = Inr resp
         \<and> (response_text resp = None \<or> response_text resp = Some []
            \<or> (\<exists>t err. response_text resp = Some t \<and> JSON_parse t = Inl err)))"
    using bad by (simp add: remote_call_replying)
  show ?thesis
    using key bad
      analysis_failures_uniform [OF key thrown]
      analysis_failures_uniform [OF key missing]
      analysis_failures_uniform [OF key empty]
      analysis_failures_uniform [OF key malformed]
    by (simp add: remote_call_throwing analysis_error_def)
qed

section \<open>Responses that decode\<close>

lemma conforms_string_schema: "conforms string_schema x \<longleftrightarrow> (\<exists>s. x = JString s)"
  by (cases x) (simp_all add: string_schema_def)

lemma all_strings:
  assumes "list_all (conforms string_schema) xs"
  shows "\<exists>ss. xs = map JString ss"
  using assms
proof (induction xs)
  case Nil
  then show ?case by simp
next
  case (Cons x xs)
  then obtain s ss where "x = JString s" "xs = map JString ss"
    by (auto simp: conforms_string_schema)
  then have "x # xs = map JString (s # ss)" by simp
  then show ?case by (rule exI)
qed

text \<open>What the schema of the request says about a value that satisfies it.\<close>

lemma conforms_analysis_schema:
  assumes "conforms analysis_schema v"
  obtains ms status n ss where
    "v = JObject ms"
    "map_of ms (js ''status'') = Some (JString status)"
    "status \<in> {js ''Healthy'', js ''Diseased'', js ''Uncertain''}"
    "map_of ms (js ''confidence'') = Some (JNumber n)"
    "map_of ms (js ''prevention_tips'') = Some (JArray (map JString ss))"
proof -
  from assms obtain ms where v: "v = JObject ms"
    by (cases v) (simp_all add: analysis_schema_def)
  from assms v have req:
      "map_of ms (js ''status'') \<noteq> None"
      "map_of ms (js ''confidence'') \<noteq> None"
      "map_of ms (js ''prevention_tips'') \<noteq> None"
    by (simp_all add: analysis_schema_def)
  then obtain x y z where xyz:
      "map_of ms (js ''status'') = Some x"
      "map_of ms (js ''confidence'') = Some y"
      "map_of ms (js ''prevention_tips'') = Some z"
    by auto
  from assms v xyz have
      cx: "conforms
             (Schema STRING (Some [js ''Healthy'', js ''Diseased'', js ''Uncertain'']) [] None []) x"
      and cy: "conforms (Schema NUMBER None [] None []) y"
      and cz: "conforms (Schema ARRAY None [] (Some string_schema) []) z"
    by (simp_all add: analysis_schema_def)
  from cx obtain status where x: "x = JString status"
      "status \<in> {js ''Healthy'', js ''Diseased'', js ''Uncertain''}"
    by (cases x) auto
  from cy obtain n where y: "y = JNumber n"
    by (cases y) auto
  from cz obtain tips where z: "z = JArray tips" "list_all (conforms string_schema) tips"
    by (cases z) auto
  from z(2) have "\<exists>ss. tips = map JString ss"
    by (rule all_strings)
  then obtain ss where ss: "tips = map JString ss" ..
  show thesis
    using that [of ms status n ss] v xyz x y z(1) ss by simp
qed

lemma returned_when_decoded:
  assumes "apiKey m \<noteq> []"
    and "remote_call m w b l sy = Inr resp"
    and "response_text resp = Some t"
    and "JSON_parse t = Inr v"
  shows "snd (analyzePlantImage m w b l sy) = Inr v"
  using assms by (simp add: outcome_with_key)

text \<open>
  Number literals decode to doubles: a literal between two doubles goes to the nearest
  one, a tie to the even significand, a literal beyond the largest double to infinity,
  and \<^verbatim>\<open>-0\<close> keeps its sign.
\<close>

lemma decode_rounds_to_nearest:
  "JSON_parse (js ''100.000000000000001'') = Inr (JNumber (Finite 100))"
  by code_simp

lemma decode_tie_to_even:
  "JSON_parse (js ''9007199254740993'') = Inr (JNumber (Finite 9007199254740992))"
  by code_simp

lemma decode_tenth:
  "JSON_parse (js ''0.1'') = Inr (JNumber (Finite (3602879701896397 / 36028797018963968)))"
  by code_simp

lemma decode_minus_zero:
  "JSON_parse (js ''-0'') = Inr (JNumber MinusZero)"
  by code_simp

lemma decode_overflow:
  "JSON_parse (js ''1e400'') = Inr (JNumber PlusInfinity)"
  by code_simp

text \<open>The sample texts decode to the sample values, and these satisfy the schema.\<close>

lemma parse_sample_87:
  "JSON_parse (sample_text (js ''87'') (js ''[\"Rotate crops\",\"Mulch the soil\"]'')) =
     Inr (sample_value 87 [JString (js ''Rotate crops''), JString (js ''Mulch the soil'')])"
  by code_simp

lemma parse_sample_0:
  "JSON_parse (sample_text (js ''0'') (js ''[\"Rotate crops\",\"Mulch the soil\"]'')) =
     Inr (sample_value 0 [JString (js ''Rotate crops''), JString (js ''Mulch the soil'')])"
  by code_simp

lemma parse_sample_100:
  "JSON_parse (sample_text (js ''100'') (js ''[\"Rotate crops\",\"Mulch the soil\"]'')) =
     Inr (sample_value 100 [JString (js ''Rotate crops''), JString (js ''Mulch the soil'')])"
  by code_simp

lemma parse_sample_rounded:
  "JSON_parse (sample_text (js ''100.000000000000001'')
       (js ''[\"Rotate crops\",\"Mulch the soil\"]'')) =
     Inr (sample_value 100 [JString (js ''Rotate crops''), JString (js ''Mulch the soil'')])"
  by code_simp

lemma parse_sample_150:
  "JSON_parse (sample_text (js ''150'') (js ''[\"Rotate crops\",\"Mulch the soil\"]'')) =
     Inr (sample_value 150 [JString (js ''Rotate crops''), JString (js ''Mulch the soil'')])"
  by code_simp

lemma parse_sample_one_tip:
  "JSON_parse (sample_text (js ''87'') (js ''[\"Rotate crops\"]'')) =
     Inr (sample_value 87 [JString (js ''Rotate crops'')])"
  by code_simp

lemma conforms_sample:
  "conforms analysis_schema (sample_value n (map JString ss))"
proof -
  have "list_all (conforms string_schema) (map JString ss)"
    by (simp add: list_all_iff conforms_string_schema)
  moreover have "conforms analysis_schema (sample_value n [])"
    by code_simp
  ultimately show ?thesis
    by (simp add: analysis_schema_def sample_value_def js_def string_schema_def)
qed



text \<open>
  C1, as the code has it. When the response text decodes as JSON, the call returns the
  decoded value as it is, whatever its shape: a number, \<^verbatim>\<open>null\<close> or an object without
  the mandatory properties is returned, not refused. The analysis error comes from the
  decoding only when the text is not JSON.
\<close>

theorem decoded_value_returned_unchecked:
  assumes "apiKey m \<noteq> []"
    and "remote_call m w base64Image language symptoms = Inr resp"
    and "response_text resp = Some t"
  shows "snd (analyzePlantImage m w base64Image language symptoms) =
           (case JSON_parse t of Inl err \<Rightarrow> Inl analysis_error | Inr v \<Rightarrow> Inr v)"
  using assms by (simp add: outcome_with_key)

theorem decoded_value_returned_unchecked_witness:
  "apiKey \<lparr>apiKey = js ''key''\<rparr> \<noteq> []
   \<and> JSON_parse (js ''[1,2]'') = Inr (JArray [JNumber (Finite 1), JNumber (Finite 2)])
   \<and> snd (analyzePlantImage \<lparr>apiKey = js ''key''\<rparr> (world_replying (Some (js ''[1,2]'')))
         (js ''iVBORw=='') (js ''English'') None) = Inr (JArray [JNumber (Finite 1), JNumber (Finite 2)])
   \<and> JSON_parse (js ''[1,2'') = Inl SyntaxError
   \<and> snd (analyzePlantImage \<lparr>apiKey = js ''key''\<rparr> (world_replying (Some (js ''[1,2'')))
         (js ''iVBORw=='') (js ''English'') None) = Inl analysis_error"
proof -
  have key: "apiKey \<lparr>apiKey = js ''key''\<rparr> \<noteq> []"
    by (simp add: js_def)
  have whole: "JSON_parse (js ''[1,2]'') = Inr (JArray [JNumber (Finite 1), JNumber (Finite 2)])"
    by code_simp
  have cut: "JSON_parse (js ''[1,2'') = Inl SyntaxError"
    by code_simp
  have reply: "response_text \<lparr>response_text = Some t\<rparr> = Some t" for t :: js_string
    by simp
  show ?thesis
    using key whole cut
      decoded_value_returned_unchecked [OF key remote_call_replying reply,
        of "js ''[1,2]''" "js ''iVBORw==''" "js ''English''" None]
      decoded_value_returned_unchecked [OF key remote_call_replying reply,
        of "js ''[1,2''" "js ''iVBORw==''" "js ''English''" None]
    by simp
qed

text \<open>
  C1 as stated fails: the texts \<^verbatim>\<open>42\<close>, \<^verbatim>\<open>null\<close> and an object that has only
  \<^verbatim>\<open>plant_name\<close> decode, do not satisfy the schema, and are returned.
\<close>

theorem malformed_value_returned_counterexample:
  "\<not> conforms analysis_schema (JNumber (Finite 42))
   \<and> snd (analyzePlantImage \<lparr>apiKey = js ''key''\<rparr> (world_replying (Some (js ''42'')))
         (js ''iVBORw=='') (js ''English'') None) = Inr (JNumber (Finite 42))
   \<and> \<not> conforms analysis_schema JNull
   \<and> snd (analyzePlantImage \<lparr>apiKey = js ''key''\<rparr> (world_replying (Some (js ''null'')))
         (js ''iVBORw=='') (js ''English'') None) = Inr JNull
   \<and> \<not> conforms analysis_schema (JObject [(js ''plant_name'', JString (js ''Rose''))])
   \<and> snd (analyzePlantImage \<lparr>apiKey = js ''key''\<rparr>
         (world_replying (Some (js ''{\"plant_name\":\"Rose\"}'')))
         (js ''iVBORw=='') (js ''English'') None) =
       Inr (JObject [(js ''plant_name'', JString (js ''Rose''))])"
proof -
  have key: "apiKey \<lparr>apiKey = js ''key''\<rparr> \<noteq> []"
    by (simp add: js_def)
  have number: "JSON_parse (js ''42'') = Inr (JNumber (Finite 42))"
    by code_simp
  have null: "JSON_parse (js ''null'') = Inr JNull"
    by code_simp
  have partial: "JSON_parse (js ''{\"plant_name\":\"Rose\"}'') =
      Inr (JObject [(js ''plant_name'', JString (js ''Rose''))])"
    by code_simp
  have shapes: "\<not> conforms analysis_schema (JNumber (Finite 42))" "\<not> conforms analysis_schema JNull"
      "\<not> conforms analysis_schema (JObject [(js ''plant_name'', JString (js ''Rose''))])"
    by code_simp+
  have reply: "response_text \<lparr>response_text = Some t\<rparr> = Some t" for t :: js_string
    by simp
  show ?thesis
    using shapes
      returned_when_decoded [OF key remote_call_replying reply number]
      returned_when_decoded [OF key remote_call_replying reply null]
      returned_when_decoded [OF key remote_call_replying reply partial]
    by simp
qed

text \<open>
  C6, as the code has it. For a response that satisfies the schema of the request, the
  \<^verbatim>\<open>confidence\<close> of the returned value is a number, and it is the number that
  \<^verbatim>\<open>JSON.parse\<close> decodes from the response text: the function passes it on
  unchanged. The literals 0 and 100 come back as 0 and 100. Neither the schema nor the
  code bounds the number.
\<close>

theorem confidence_returned_unchanged:
  assumes "apiKey m \<noteq> []"
    and "remote_call m w base64Image language symptoms = Inr resp"
    and "response_text resp = Some t"
    and "JSON_parse t = Inr v"
    and "conforms analysis_schema v"
  shows "\<exists>r n. snd (analyzePlantImage m w base64Image language symptoms) = Inr r
           \<and> get_property v (js ''confidence'') = Some (JNumber n)
           \<and> get_property r (js ''confidence'') = Some (JNumber n)"
proof -
  have "snd (analyzePlantImage m w base64Image language symptoms) = Inr v"
    using assms(1-4) by (rule returned_when_decoded)
  moreover obtain n where "get_property v (js ''confidence'') = Some (JNumber n)"
    using assms(5) by (rule conforms_analysis_schema) (auto simp: get_property_def)
  ultimately show ?thesis by blast
qed

theorem confidence_returned_unchanged_witness:
  "apiKey \<lparr>apiKey = js ''key''\<rparr> \<noteq> []
   \<and> conforms analysis_schema
       (sample_value 0 [JString (js ''Rotate crops''), JString (js ''Mulch the soil'')])
   \<and> conforms analysis_schema
       (sample_value 100 [JString (js ''Rotate crops''), JString (js ''Mulch the soil'')])
   \<and> (\<exists>r. snd (analyzePlantImage \<lparr>apiKey = js ''key''\<rparr>
         (world_replying (Some (sample_text (js ''0'') (js ''[\"Rotate crops\",\"Mulch the soil\"]''))))
         (js ''iVBORw=='') (js ''English'') None) = Inr r
       \<and> get_property r (js ''confidence'') = Some (JNumber (Finite 0)))
   \<and> (\<exists>r. snd (analyzePlantImage \<lparr>apiKey = js ''key''\<rparr>
         (world_replying (Some (sample_text (js ''100'') (js ''[\"Rotate crops\",\"Mulch the soil\"]''))))
         (js ''iVBORw=='') (js ''English'') None) = Inr r
       \<and> get_property r (js ''confidence'') = Some (JNumber (Finite 100)))
   \<and> (\<exists>r. snd (analyzePlantImage \<lparr>apiKey = js ''key''\<rparr>
         (world_replying (Some (sample_text (js ''100.000000000000001'')
            (js ''[\"Rotate crops\",\"Mulch the soil\"]''))))
         (js ''iVBORw=='') (js ''English'') None) = Inr r
       \<and> get_property r (js ''confidence'') = Some (JNumber (Finite 100)))"
proof -
  let ?tips = "[JString (js ''Rotate crops''), JString (js ''Mulch the soil'')]"
  have key: "apiKey \<lparr>apiKey = js ''key''\<rparr> \<noteq> []"
    by (simp add: js_def)
  have reply: "response_text \<lparr>response_text = Some t\<rparr> = Some t" for t :: js_string
    by simp
  have ok: "conforms analysis_schema (sample_value n ?tips)" for n
    using conforms_sample [of n "[js ''Rotate crops'', js ''Mulch the soil'']"] by simp
  have field: "get_property (sample_value n ?tips) (js ''confidence'') = Some (JNumber (Finite n))" for n
    by (simp add: get_property_def sample_value_def js_def)
  show ?thesis
    using key ok [of 0] ok [of 100]
      confidence_returned_unchanged [OF key remote_call_replying reply parse_sample_0 ok,
        of "js ''iVBORw==''" "js ''English''" None]
      confidence_returned_unchanged [OF key remote_call_replying reply parse_sample_100 ok,
        of "js ''iVBORw==''" "js ''English''" None]
      confidence_returned_unchanged [OF key remote_call_replying reply parse_sample_rounded ok,
        of "js ''iVBORw==''" "js ''English''" None]
    by (simp add: field)
qed

text \<open>
  C6 as stated fails: a response with the confidence 150 satisfies the schema, and 150 is
  returned.
\<close>

theorem confidence_above_range_counterexample:
  "conforms analysis_schema
     (sample_value 150 [JString (js ''Rotate crops''), JString (js ''Mulch the soil'')])
   \<and> snd (analyzePlantImage \<lparr>apiKey = js ''key''\<rparr>
         (world_replying (Some (sample_text (js ''150'') (js ''[\"Rotate crops\",\"Mulch the soil\"]''))))
         (js ''iVBORw=='') (js ''English'') None) =
       Inr (sample_value 150 [JString (js ''Rotate crops''), JString (js ''Mulch the soil'')])
   \<and> get_property
         (sample_value 150 [JString (js ''Rotate crops''), JString (js ''Mulch the soil'')])
         (js ''confidence'') = Some (JNumber (Finite 150))
   \<and> \<not> (150 :: rat) \<le> 100"
proof -
  let ?tips = "[JString (js ''Rotate crops''), JString (js ''Mulch the soil'')]"
  have key: "apiKey \<lparr>apiKey = js ''key''\<rparr> \<noteq> []"
    by (simp add: js_def)
  have reply: "response_text \<lparr>response_text = Some t\<rparr> = Some t" for t :: js_string
    by simp
  have ok: "conforms analysis_schema (sample_value 150 ?tips)"
    using conforms_sample [of 150 "[js ''Rotate crops'', js ''Mulch the soil'']"] by simp
  have field: "get_property (sample_value 150 ?tips) (js ''confidence'') = Some (JNumber (Finite 150))"
    by (simp add: get_property_def sample_value_def js_def)
  show ?thesis
    using ok field returned_when_decoded [OF key remote_call_replying reply parse_sample_150]
    by simp
qed

text \<open>
  C8, as the code has it. For a response that satisfies the schema of the request, the
  \<^verbatim>\<open>prevention_tips\<close> of the returned value is the list of texts of the response, in
  its order and unchanged. Neither the schema nor the code bounds its length.
\<close>

theorem prevention_tips_returned_unchanged:
  assumes "apiKey m \<noteq> []"
    and "remote_call m w base64Image language symptoms = Inr resp"
    and "response_text resp = Some t"
    and "JSON_parse t = Inr v"
    and "conforms analysis_schema v"
  shows "\<exists>r tips. snd (analyzePlantImage m w base64Image language symptoms) = Inr r
           \<and> get_property v (js ''prevention_tips'') = Some (JArray (map JString tips))
           \<and> get_property r (js ''prevention_tips'') = Some (JArray (map JString tips))"
proof -
  have "snd (analyzePlantImage m w base64Image language symptoms) = Inr v"
    using assms(1-4) by (rule returned_when_decoded)
  moreover obtain tips where
    "get_property v (js ''prevention_tips'') = Some (JArray (map JString tips))"
    using assms(5) by (rule conforms_analysis_schema) (auto simp: get_property_def)
  ultimately show ?thesis by blast
qed

theorem prevention_tips_returned_unchanged_witness:
  "apiKey \<lparr>apiKey = js ''key''\<rparr> \<noteq> []
   \<and> conforms analysis_schema
       (sample_value 87 [JString (js ''Rotate crops''), JString (js ''Mulch the soil'')])
   \<and> (\<exists>r. snd (analyzePlantImage \<lparr>apiKey = js ''key''\<rparr>
         (world_replying (Some (sample_text (js ''87'') (js ''[\"Rotate crops\",\"Mulch the soil\"]''))))
         (js ''iVBORw=='') (js ''English'') None) = Inr r
       \<and> get_property r (js ''prevention_tips'') =
           Some (JArray [JString (js ''Rotate crops''), JString (js ''Mulch the soil'')]))"
proof -
  let ?tips = "[JString (js ''Rotate crops''), JString (js ''Mulch the soil'')]"
  have key: "apiKey \<lparr>apiKey = js ''key''\<rparr> \<noteq> []"
    by (simp add: js_def)
  have reply: "response_text \<lparr>response_text = Some t\<rparr> = Some t" for t :: js_string
    by simp
  have ok: "conforms analysis_schema (sample_value 87 ?tips)"
    using conforms_sample [of 87 "[js ''Rotate crops'', js ''Mulch the soil'']"] by simp
  have field: "get_property (sample_value 87 ?tips) (js ''prevention_tips'') = Some (JArray ?tips)"
    by (simp add: get_property_def sample_value_def js_def)
  show ?thesis
    using key ok
      prevention_tips_returned_unchanged [OF key remote_call_replying reply parse_sample_87 ok,
        of "js ''iVBORw==''" "js ''English''" None]
    by (auto simp: field)
qed

text \<open>
  C8 as stated fails: a response with a single prevention tip satisfies the schema and is
  returned with its single tip.
\<close>

theorem single_prevention_tip_counterexample:
  "conforms analysis_schema (sample_value 87 [JString (js ''Rotate crops'')])
   \<and> snd (analyzePlantImage \<lparr>apiKey = js ''key''\<rparr>
         (world_replying (Some (sample_text (js ''87'') (js ''[\"Rotate crops\"]''))))
         (js ''iVBORw=='') (js ''English'') None) =
       Inr (sample_value 87 [JString (js ''Rotate crops'')])
   \<and> get_property (sample_value 87 [JString (js ''Rotate crops'')]) (js ''prevention_tips'') =
       Some (JArray [JString (js ''Rotate crops'')])
   \<and> \<not> 2 \<le> length [JString (js ''Rotate crops'')]"
proof -
  have key: "apiKey \<lparr>apiKey = js ''key''\<rparr> \<noteq> []"
    by (simp add: js_def)
  have reply: "response_text \<lparr>response_text = Some t\<rparr> = Some t" for t :: js_string
    by simp
  have ok: "conforms analysis_schema (sample_value 87 [JString (js ''Rotate crops'')])"
    using conforms_sample [of 87 "[js ''Rotate crops'']"] by simp
  have field: "get_property (sample_value 87 [JString (js ''Rotate crops'')])
      (js ''prevention_tips'') = Some (JArray [JString (js ''Rotate crops'')])"
    by (simp add: get_property_def sample_value_def js_def)
  show ?thesis
    using ok field returned_when_decoded [OF key remote_call_replying reply parse_sample_one_tip]
    by simp
qed

section \<open>When the credential is read\<close>

lemma errors_differ: "missing_key_error \<noteq> analysis_error"
  by (simp add: missing_key_error_def analysis_error_def js_def)

lemma env_not_read:
  "analyzePlantImage m (w\<lparr>env := e\<rparr>) b l sy = analyzePlantImage m w b l sy"
  by (simp add: analyzePlantImage_def try_block_def)

lemma loaded_key: "apiKey (load_module e) \<noteq> [] \<Longrightarrow> API_KEY e = Some (apiKey (load_module e))"
  by (auto simp: load_module_def or_else_def split: option.splits if_splits)

text \<open>
  C9, as the code has it. The credential a call uses, for the test of its presence and
  for the client that sends the request, is the value the environment variable had when
  the module was loaded. What the variable holds at the time of the call has no effect on
  the call.
\<close>

theorem credential_fixed_at_load:
  "analyzePlantImage (load_module e) (w\<lparr>env := e'\<rparr>) base64Image language symptoms =
     analyzePlantImage (load_module e) w base64Image language symptoms
   \<and> (snd (analyzePlantImage (load_module e) w base64Image language symptoms) =
         Inl missing_key_error
       \<longleftrightarrow> API_KEY e = None \<or> API_KEY e = Some [])
   \<and> (\<forall>ev \<in> set (fst (analyzePlantImage (load_module e) w base64Image language symptoms)).
         (\<forall>k. ev = NewGoogleGenAI k \<longrightarrow> API_KEY e = Some k)
         \<and> (\<forall>ai req. ev = GenerateContent ai req \<longrightarrow> API_KEY e = Some (client_apiKey ai)))"
proof (intro conjI)
  show "analyzePlantImage (load_module e) (w\<lparr>env := e'\<rparr>) base64Image language symptoms =
      analyzePlantImage (load_module e) w base64Image language symptoms"
    by (rule env_not_read)
next
  show "snd (analyzePlantImage (load_module e) w base64Image language symptoms) =
        Inl missing_key_error
      \<longleftrightarrow> API_KEY e = None \<or> API_KEY e = Some []"
  proof (cases "apiKey (load_module e) = []")
    case True
    then show ?thesis
      by (auto simp: analyzePlantImage_def load_module_def or_else_def
          split: option.splits if_splits)
  next
    case False
    then have "API_KEY e = Some (apiKey (load_module e))"
      by (rule loaded_key)
    with False errors_differ show ?thesis
      by (auto simp: outcome_with_key split: sum.splits option.splits)
  qed
next
  show "\<forall>ev \<in> set (fst (analyzePlantImage (load_module e) w base64Image language symptoms)).
      (\<forall>k. ev = NewGoogleGenAI k \<longrightarrow> API_KEY e = Some k)
      \<and> (\<forall>ai req. ev = GenerateContent ai req \<longrightarrow> API_KEY e = Some (client_apiKey ai))"
  proof (cases "apiKey (load_module e) = []")
    case True
    then show ?thesis by (simp add: analyzePlantImage_def)
  next
    case False
    then have "API_KEY e = Some (apiKey (load_module e))"
      by (rule loaded_key)
    with False show ?thesis
      by (auto simp: analyzePlantImage_def Let_def split: sum.splits)
  qed
qed

lemma trace_sample:
  "analyzePlantImage (load_module \<lparr>API_KEY = Some (js ''original'')\<rparr>)
      (world_replying (Some (js ''42''))) (js ''iVBORw=='') (js ''English'') None =
     ([NewGoogleGenAI (js ''original''),
       GenerateContent (GoogleGenAI (js ''original''))
         (build_request (js ''iVBORw=='') (js ''English'') None)],
      Inr (JNumber (Finite 42)))"
proof -
  have key: "or_else (Some (js ''original'')) [] = js ''original''" "js ''original'' \<noteq> []"
    by (simp_all add: or_else_def js_def)
  have plain: "\<not> (\<exists>p \<in> set recognized_prefixes. prefix p (js ''iVBORw==''))"
    by (simp add: recognized_prefixes_def js_def)
  have number: "JSON_parse (js ''42'') = Inr (JNumber (Finite 42))"
    by code_simp
  have "truthy (Some (js ''42''))"
    by (simp add: truthy_def js_def)
  then show ?thesis
    using key number
    by (simp add: analyzePlantImage_def load_module_def Let_def try_block_def
        world_replying_def replace_unrecognized [OF plain])
qed

theorem credential_fixed_at_load_witness:
  "analyzePlantImage (load_module \<lparr>API_KEY = Some (js ''original'')\<rparr>)
      ((world_replying (Some (js ''42''))) \<lparr>env := \<lparr>API_KEY = Some (js ''rotated'')\<rparr>\<rparr>)
      (js ''iVBORw=='') (js ''English'') None =
     analyzePlantImage (load_module \<lparr>API_KEY = Some (js ''original'')\<rparr>)
      (world_replying (Some (js ''42''))) (js ''iVBORw=='') (js ''English'') None
   \<and> API_KEY \<lparr>API_KEY = None\<rparr> = None
   \<and> snd (analyzePlantImage (load_module \<lparr>API_KEY = None\<rparr>)
         (world_replying (Some (js ''42''))) (js ''iVBORw=='') (js ''English'') None) =
       Inl missing_key_error
   \<and> NewGoogleGenAI (js ''original'')
       \<in> set (fst (analyzePlantImage (load_module \<lparr>API_KEY = Some (js ''original'')\<rparr>)
            (world_replying (Some (js ''42''))) (js ''iVBORw=='') (js ''English'') None))
   \<and> API_KEY \<lparr>API_KEY = Some (js ''original'')\<rparr> = Some (js ''original'')"
proof -
  let ?w = "world_replying (Some (js ''42''))"
  note loaded = credential_fixed_at_load [where e = "\<lparr>API_KEY = Some (js ''original'')\<rparr>"
      and w = ?w and e' = "\<lparr>API_KEY = Some (js ''rotated'')\<rparr>"
      and base64Image = "js ''iVBORw==''" and language = "js ''English''" and symptoms = None]
  note absent = credential_fixed_at_load [where e = "\<lparr>API_KEY = None\<rparr>"
      and w = ?w and e' = "\<lparr>API_KEY = Some (js ''rotated'')\<rparr>"
      and base64Image = "js ''iVBORw==''" and language = "js ''English''" and symptoms = None]
  have constructed: "NewGoogleGenAI (js ''original'')
      \<in> set (fst (analyzePlantImage (load_module \<lparr>API_KEY = Some (js ''original'')\<rparr>)
            ?w (js ''iVBORw=='') (js ''English'') None))"
    by (simp add: trace_sample)
  show ?thesis
    using constructed
      loaded [THEN conjunct1]
      absent [THEN conjunct2, THEN conjunct1]
      loaded [THEN conjunct2, THEN conjunct2, THEN bspec, OF constructed]
    by simp
qed

text \<open>
  C9 as stated fails. A module loaded with the key \<^verbatim>\<open>original\<close> still uses
  \<^verbatim>\<open>original\<close> in a call made when the variable holds \<^verbatim>\<open>rotated\<close>, and a module
  loaded without a key refuses a call made when the variable holds one.
\<close>

theorem credential_at_call_time_counterexample:
  "API_KEY (env ((world_replying (Some (js ''42'')))
       \<lparr>env := \<lparr>API_KEY = Some (js ''rotated'')\<rparr>\<rparr>)) = Some (js ''rotated'')
   \<and> analyzePlantImage (load_module \<lparr>API_KEY = Some (js ''original'')\<rparr>)
        ((world_replying (Some (js ''42''))) \<lparr>env := \<lparr>API_KEY = Some (js ''rotated'')\<rparr>\<rparr>)
        (js ''iVBORw=='') (js ''English'') None =
       ([NewGoogleGenAI (js ''original''),
         GenerateContent (GoogleGenAI (js ''original''))
           (build_request (js ''iVBORw=='') (js ''English'') None)],
        Inr (JNumber (Finite 42)))
   \<and> js ''original'' \<noteq> js ''rotated''
   \<and> analyzePlantImage (load_module \<lparr>API_KEY = None\<rparr>)
        ((world_replying (Some (js ''42''))) \<lparr>env := \<lparr>API_KEY = Some (js ''rotated'')\<rparr>\<rparr>)
        (js ''iVBORw=='') (js ''English'') None =
       ([], Inl missing_key_error)"
proof -
  have differ: "js ''original'' \<noteq> js ''rotated''"
    by (simp add: js_def)
  have refused: "analyzePlantImage (load_module \<lparr>API_KEY = None\<rparr>) w b l sy =
      ([], Inl missing_key_error)" for w b l sy
    by (simp add: analyzePlantImage_def load_module_def or_else_def)
  show ?thesis
    using differ by (simp add: env_not_read trace_sample refused)
qed

end
